theory Spec2Isabelle
  imports Main
begin

section \<open>The command line of mockgen (mockgen/cli/cli.go)\<close>

text \<open>
  The program is the function \<open>main\<close> of \<open>cli.go\<close>. It reads the parsed flags and
  the positional arguments, picks one of the two extractors of the generator package,
  and hands the extracted package to the generator. The extractors, the generator, the
  working-directory lookup and the output sink live outside this file; they are the
  fields of an environment record, and every call of one of them, with its arguments and
  its answer, is an event of the run's trace. A run is the pair of its trace and its
  exit status: \<open>0\<close> when \<open>main\<close> returns, \<open>1\<close> after \<open>log.Fatal\<close>.
\<close>

subsection \<open>Data\<close>

text \<open>A Go \<open>error\<close> is known to \<open>main\<close> only through its \<open>%v\<close> rendering.\<close>

type_synonym error = string

text \<open>
  The flag variables of lines 41 to 57 after \<open>flag.Parse()\<close>, and \<open>flag.Args()\<close>.
\<close>

record cli =
  source :: string
  destination :: string
  mockNames :: string
  packageOut :: string
  selfPackage :: string
  writeCmdComment :: bool
  writePkgComment :: bool
  writeSourceComment :: bool
  writeGenerateDirective :: bool
  copyrightFile :: string
  typed :: bool
  "imports" :: string
  auxFiles :: string
  excludeInterfaces :: string
  debugParser :: bool
  showVersion :: bool
  args :: "string list"

text \<open>The options structure \<open>generator.Flags\<close>, as \<open>main\<close> fills it (lines 64 to 79).\<close>

record Flags =
  Source :: string
  Destination :: string
  MockNames :: string
  PackageOut :: string
  SelfPackage :: string
  WriteCmdComment :: bool
  WritePkgComment :: bool
  WriteSourceComment :: bool
  WriteGenerateDirective :: bool
  CopyrightFile :: string
  Typed :: bool
  Imports :: string
  AuxFiles :: string
  ExcludeInterfaces :: string

text \<open>
  What \<open>main\<close> calls and does not define: the link-time variables \<open>version\<close>,
  \<open>commit\<close> and \<open>date\<close> (lines 34 to 38), the two extractors, \<open>os.Getwd\<close>,
  \<open>generator.PackageNameOfDir\<close>, and the two methods of the generator. \<open>'pkg\<close> is
  \<open>model.Package\<close>, \<open>'gen\<close> is the generator after a successful \<open>Generate\<close>.
\<close>

record ('pkg, 'gen) env =
  version :: string
  commit :: string
  date :: string
  SourceMode :: "string \<Rightarrow> string \<Rightarrow> string \<Rightarrow> string \<Rightarrow> error + 'pkg"
  ReflectMode :: "string \<Rightarrow> string list \<Rightarrow> error + 'pkg"
  Getwd :: "error + string"
  PackageNameOfDir :: "string \<Rightarrow> error + string"
  Generate :: "'pkg \<Rightarrow> string \<Rightarrow> string \<Rightarrow> Flags \<Rightarrow> error + 'gen"
  OutputToDestination :: "'gen \<Rightarrow> string \<Rightarrow> error option"

text \<open>The observable steps of a run, in the order \<open>main\<close> takes them.\<close>

datatype 'pkg event =
    PrintfStdout string
  | PrintModuleVersion
  | WriteUsageText
  | PrintDefaults
  | LogFatal string
  | CallSourceMode string string string string "error + 'pkg"
  | CallGetwd "error + string"
  | CallPackageNameOfDir string "error + string"
  | CallReflectMode string "string list" "error + 'pkg"
  | PrintPackage 'pkg
  | NewGenerator
  | CallGenerate 'pkg string string Flags "error option"
  | CallOutputToDestination string "error option"

subsection \<open>Library calls\<close>

text \<open>
  \<open>strings.Split(s, sep)\<close> for a separator of one byte: the pieces of \<open>s\<close> between
  the separators, one more piece than there are separators, a single piece \<open>s\<close> when
  there is none (also for the empty string).
\<close>

primrec Split :: "string \<Rightarrow> char \<Rightarrow> string list" where
  "Split [] sep = [[]]"
| "Split (x # xs) sep =
     (if x = sep then [] # Split xs sep
      else (case Split xs sep of
              [] \<Rightarrow> [[x]]
            | piece # pieces \<Rightarrow> (x # piece) # pieces))"

text \<open>\<open>flag.NArg()\<close> and \<open>flag.Arg(i)\<close>; the latter is empty when there is no such argument.\<close>

definition NArg :: "cli \<Rightarrow> nat" where
  "NArg c = length (args c)"

definition Arg :: "cli \<Rightarrow> nat \<Rightarrow> string" where
  "Arg c i = (if i < length (args c) then args c ! i else [])"

subsection \<open>The functions of cli.go\<close>

text \<open>Lines 129 to 135.\<close>

definition printVersion :: "('pkg, 'gen) env \<Rightarrow> 'pkg event list" where
  "printVersion e =
     (if version e \<noteq> []
      then [PrintfStdout (''v'' @ version e @ [CHR 0x0A] @ ''Commit: '' @ commit e
                          @ [CHR 0x0A] @ ''Date: '' @ date e @ [CHR 0x0A])]
      else [PrintModuleVersion])"

text \<open>Lines 137 to 140.\<close>

definition usage :: "'pkg event list" where
  "usage = [WriteUsageText, PrintDefaults]"

text \<open>Lines 64 to 79.\<close>

definition flags :: "cli \<Rightarrow> Flags" where
  "flags c =
     \<lparr> Source = source c,
       Destination = destination c,
       MockNames = mockNames c,
       PackageOut = packageOut c,
       SelfPackage = selfPackage c,
       WriteCmdComment = writeCmdComment c,
       WritePkgComment = writePkgComment c,
       WriteSourceComment = writeSourceComment c,
       WriteGenerateDirective = writeGenerateDirective c,
       CopyrightFile = copyrightFile c,
       Typed = typed c,
       Imports = imports c,
       AuxFiles = auxFiles c,
       ExcludeInterfaces = excludeInterfaces c \<rparr>"

text \<open>
  Lines 98 to 107: the package name \<open>"."\<close> is looked up from the working directory.
  The result is the trace and either the exit status of \<open>log.Fatalf\<close> or the name.
\<close>

definition resolvePackageName ::
  "('pkg, 'gen) env \<Rightarrow> string \<Rightarrow> 'pkg event list \<times> (nat + string)" where
  "resolvePackageName e packageName =
     (if packageName = ''.'' then
        (case Getwd e of
           Inl err \<Rightarrow>
             ([CallGetwd (Inl err),
               LogFatal (''Get current directory failed: '' @ err)], Inl 1)
         | Inr dir \<Rightarrow>
             (case PackageNameOfDir e dir of
                Inl err \<Rightarrow>
                  ([CallGetwd (Inr dir), CallPackageNameOfDir dir (Inl err),
                    LogFatal (''Parse package name failed: '' @ err)], Inl 1)
              | Inr name \<Rightarrow>
                  ([CallGetwd (Inr dir), CallPackageNameOfDir dir (Inr name)], Inr name)))
      else ([], Inr packageName))"

text \<open>
  Lines 86 to 109: the choice of the extractor. The result is the trace and either an
  exit status or the extractor's answer with the value of \<open>packageName\<close>, which stays
  empty in source mode.
\<close>

definition loadInput ::
  "('pkg, 'gen) env \<Rightarrow> cli \<Rightarrow> 'pkg event list \<times> (nat + (error + 'pkg) \<times> string)" where
  "loadInput e c =
     (if source c \<noteq> [] then
        (let r = SourceMode e (source c) (imports c) (excludeInterfaces c) (auxFiles c)
         in ([CallSourceMode (source c) (imports c) (excludeInterfaces c) (auxFiles c) r],
             Inr (r, [])))
      else if NArg c \<noteq> 2 then
        (usage @ [LogFatal ''Expected exactly two arguments''], Inl 1)
      else
        (let interfaces = Split (Arg c 1) (CHR '','')
         in case resolvePackageName e (Arg c 0) of
              (tr, Inl st) \<Rightarrow> (tr, Inl st)
            | (tr, Inr packageName) \<Rightarrow>
                (let r = ReflectMode e packageName interfaces
                 in (tr @ [CallReflectMode packageName interfaces r],
                     Inr (r, packageName)))))"

text \<open>Lines 119 to 126: the generator is made, run, and its buffer written out.\<close>

definition generateAndOutput ::
  "('pkg, 'gen) env \<Rightarrow> cli \<Rightarrow> 'pkg \<Rightarrow> string \<Rightarrow> 'pkg event list \<times> nat" where
  "generateAndOutput e c pkg packageName =
     (case Generate e pkg packageName (Arg c 1) (flags c) of
        Inl err \<Rightarrow>
          ([NewGenerator,
            CallGenerate pkg packageName (Arg c 1) (flags c) (Some err),
            LogFatal (''Failed generating mock: '' @ err)], 1)
      | Inr g \<Rightarrow>
          (case OutputToDestination e g (destination c) of
             Some err \<Rightarrow>
               ([NewGenerator,
                 CallGenerate pkg packageName (Arg c 1) (flags c) None,
                 CallOutputToDestination (destination c) (Some err),
                 LogFatal (''Failed output: '' @ err)], 1)
           | None \<Rightarrow>
               ([NewGenerator,
                 CallGenerate pkg packageName (Arg c 1) (flags c) None,
                 CallOutputToDestination (destination c) None], 0)))"

text \<open>Lines 60 to 127.\<close>

definition main :: "('pkg, 'gen) env \<Rightarrow> cli \<Rightarrow> 'pkg event list \<times> nat" where
  "main e c =
     (if showVersion c then (printVersion e, 0)
      else
        (case loadInput e c of
           (tr, Inl st) \<Rightarrow> (tr, st)
         | (tr, Inr (Inl err, packageName)) \<Rightarrow>
             (tr @ [LogFatal (''Loading input failed: '' @ err)], 1)
         | (tr, Inr (Inr pkg, packageName)) \<Rightarrow>
             (if debugParser c then (tr @ [PrintPackage pkg], 0)
              else
                (case generateAndOutput e c pkg packageName of
                   (tr', st) \<Rightarrow> (tr @ tr', st)))))"

subsection \<open>Reading a run\<close>

definition trace :: "('pkg, 'gen) env \<Rightarrow> cli \<Rightarrow> 'pkg event list" where
  "trace e c = fst (main e c)"

definition exitStatus :: "('pkg, 'gen) env \<Rightarrow> cli \<Rightarrow> nat" where
  "exitStatus e c = snd (main e c)"


text \<open>The calls of the two extractors, and what an extractor call answered.\<close>

fun isSourceMode :: "'pkg event \<Rightarrow> bool" where
  "isSourceMode (CallSourceMode src imp excl aux r) = True"
| "isSourceMode ev = False"

fun isReflectMode :: "'pkg event \<Rightarrow> bool" where
  "isReflectMode (CallReflectMode name ifaces r) = True"
| "isReflectMode ev = False"

definition isExtractor :: "'pkg event \<Rightarrow> bool" where
  "isExtractor ev = (isSourceMode ev \<or> isReflectMode ev)"

fun extracted :: "'pkg event \<Rightarrow> (error + 'pkg) option" where
  "extracted (CallSourceMode src imp excl aux r) = Some r"
| "extracted (CallReflectMode name ifaces r) = Some r"
| "extracted ev = None"

text \<open>The steps of the generation phase (lines 119 to 126) and the debug dump (line 115).\<close>

fun isGenerate :: "'pkg event \<Rightarrow> bool" where
  "isGenerate (CallGenerate pkg name arg fl r) = True"
| "isGenerate ev = False"

fun isOutput :: "'pkg event \<Rightarrow> bool" where
  "isOutput (CallOutputToDestination dest r) = True"
| "isOutput ev = False"

fun isPrintPackage :: "'pkg event \<Rightarrow> bool" where
  "isPrintPackage (PrintPackage pkg) = True"
| "isPrintPackage ev = False"

definition isGeneration :: "'pkg event \<Rightarrow> bool" where
  "isGeneration ev = (ev = NewGenerator \<or> isGenerate ev \<or> isOutput ev)"

text \<open>The events that hold a package: an extractor's answer, the dump, \<open>Generate\<close>.\<close>

definition holdsPackage :: "'pkg event \<Rightarrow> bool" where
  "holdsPackage ev = (isExtractor ev \<or> isPrintPackage ev \<or> isGenerate ev)"

text \<open>A step that failed: a call that answered with an error, or \<open>log.Fatal\<close>.\<close>

fun failed :: "'pkg event \<Rightarrow> bool" where
  "failed (LogFatal msg) = True"
| "failed (CallSourceMode src imp excl aux r) = isl r"
| "failed (CallReflectMode name ifaces r) = isl r"
| "failed (CallGetwd r) = isl r"
| "failed (CallPackageNameOfDir dir r) = isl r"
| "failed (CallGenerate pkg name arg fl r) = (r \<noteq> None)"
| "failed (CallOutputToDestination dest r) = (r \<noteq> None)"
| "failed ev = False"

subsection \<open>Example inputs\<close>

text \<open>
  The command line with every flag at its default (lines 41 to 57) and no argument, and
  an environment in which every call succeeds, except \<open>SourceMode\<close> on
  \<open>missing.go\<close> and \<open>Generate\<close> for the destination package \<open>bad\<close>.
\<close>

definition defaults :: cli where
  "defaults =
     \<lparr> source = [], destination = [], mockNames = [], packageOut = [],
       selfPackage = [], writeCmdComment = True, writePkgComment = True,
       writeSourceComment = True, writeGenerateDirective = False,
       copyrightFile = [], typed = False, imports = [], auxFiles = [],
       excludeInterfaces = [], debugParser = False, showVersion = False,
       args = [] \<rparr>"

definition exampleEnv :: "(string, string) env" where
  "exampleEnv =
     \<lparr> version = [], commit = ''none'', date = ''unknown'',
       SourceMode = (\<lambda>src imp excl aux.
          if src = ''missing.go'' then Inl ''no such file'' else Inr (''package of '' @ src)),
       ReflectMode = (\<lambda>name ifaces. Inr (''package '' @ name)),
       Getwd = Inr ''/work'',
       PackageNameOfDir = (\<lambda>dir. Inr ''example.com/work''),
       Generate = (\<lambda>pkg name arg fl.
          if PackageOut fl = ''bad'' then Inl ''bad package name'' else Inr (''mocks for '' @ pkg)),
       OutputToDestination = (\<lambda>g dest. None) \<rparr>"

section \<open>The shapes of a run\<close>

lemmas ev_defs = isExtractor_def isGeneration_def holdsPackage_def

lemma resolvePackageName_shape:
  obtains
    (direct) "name \<noteq> ''.''" "resolvePackageName e name = ([], Inr name)"
  | (no_dir) err where "name = ''.''" "Getwd e = Inl err"
      "resolvePackageName e name =
         ([CallGetwd (Inl err), LogFatal (''Get current directory failed: '' @ err)], Inl 1)"
  | (no_name) dir err where "name = ''.''" "Getwd e = Inr dir" "PackageNameOfDir e dir = Inl err"
      "resolvePackageName e name =
         ([CallGetwd (Inr dir), CallPackageNameOfDir dir (Inl err),
           LogFatal (''Parse package name failed: '' @ err)], Inl 1)"
  | (resolved) dir found where "name = ''.''" "Getwd e = Inr dir"
      "PackageNameOfDir e dir = Inr found"
      "resolvePackageName e name =
         ([CallGetwd (Inr dir), CallPackageNameOfDir dir (Inr found)], Inr found)"
  unfolding resolvePackageName_def
  by (cases "name = ''.''"; cases "Getwd e"; cases "PackageNameOfDir e (projr (Getwd e))") auto

lemma resolvePackageName_quiet:
  assumes "resolvePackageName e name = (tr, r)" and "ev \<in> set tr"
  shows "\<not> isExtractor ev" "\<not> isSourceMode ev" "\<not> isReflectMode ev" "\<not> isGeneration ev" "\<not> isGenerate ev" "\<not> isOutput ev"
    "\<not> isPrintPackage ev" "extracted ev = None" "\<not> holdsPackage ev"
    "ev \<noteq> WriteUsageText" "ev \<noteq> PrintDefaults"
  using assms by (cases rule: resolvePackageName_shape [of name e]; auto simp: ev_defs)+

lemma resolvePackageName_fatal:
  assumes "resolvePackageName e name = (tr, Inl st)"
  shows "st = 1 \<and> (\<exists>tr' msg. tr = tr' @ [LogFatal msg])"
  using assms by (cases rule: resolvePackageName_shape [of name e]) auto

lemma resolvePackageName_found:
  assumes "resolvePackageName e name = (tr, Inr found)" and "ev \<in> set tr"
  shows "\<not> failed ev"
  using assms by (cases rule: resolvePackageName_shape [of name e]) auto

lemma loadInput_shape:
  obtains
    (source) r where "source c \<noteq> []"
      "r = SourceMode e (source c) (imports c) (excludeInterfaces c) (auxFiles c)"
      "loadInput e c =
         ([CallSourceMode (source c) (imports c) (excludeInterfaces c) (auxFiles c) r],
          Inr (r, []))"
  | (nargs) "source c = []" "length (args c) \<noteq> 2"
      "loadInput e c =
         ([WriteUsageText, PrintDefaults, LogFatal ''Expected exactly two arguments''], Inl 1)"
  | (unresolved) tr where "source c = []" "length (args c) = 2"
      "resolvePackageName e (Arg c 0) = (tr, Inl 1)" "loadInput e c = (tr, Inl 1)"
  | (reflect) tr name r where "source c = []" "length (args c) = 2"
      "resolvePackageName e (Arg c 0) = (tr, Inr name)"
      "r = ReflectMode e name (Split (Arg c 1) (CHR '',''))"
      "loadInput e c =
         (tr @ [CallReflectMode name (Split (Arg c 1) (CHR '','')) r], Inr (r, name))"
proof (cases "source c = []")
  case False
  then show ?thesis using source by (simp add: loadInput_def Let_def)
next
  case src: True
  show ?thesis
  proof (cases "length (args c) = 2")
    case False
    then show ?thesis using src nargs by (simp add: loadInput_def NArg_def usage_def)
  next
    case two: True
    obtain tr r where res: "resolvePackageName e (Arg c 0) = (tr, r)"
      by (cases "resolvePackageName e (Arg c 0)")
    show ?thesis
    proof (cases r)
      case (Inl st)
      with res resolvePackageName_fatal [of e "Arg c 0" tr st] have "st = 1" by simp
      with Inl res src two unresolved show ?thesis
        by (simp add: loadInput_def NArg_def Let_def)
    next
      case (Inr name)
      with res src two reflect show ?thesis
        by (simp add: loadInput_def NArg_def Let_def)
    qed
  qed
qed

lemma main_shape:
  obtains
    (version) "showVersion c" "main e c = (printVersion e, 0)"
  | (fatal) tr where "\<not> showVersion c" "loadInput e c = (tr, Inl 1)" "main e c = (tr, 1)"
  | (load_err) tr err name where "\<not> showVersion c"
      "loadInput e c = (tr, Inr (Inl err, name))"
      "main e c = (tr @ [LogFatal (''Loading input failed: '' @ err)], 1)"
  | (dump) tr pkg name where "\<not> showVersion c" "debugParser c"
      "loadInput e c = (tr, Inr (Inr pkg, name))"
      "main e c = (tr @ [PrintPackage pkg], 0)"
  | (gen_err) tr pkg name err where "\<not> showVersion c" "\<not> debugParser c"
      "loadInput e c = (tr, Inr (Inr pkg, name))"
      "Generate e pkg name (Arg c 1) (flags c) = Inl err"
      "main e c =
         (tr @ [NewGenerator, CallGenerate pkg name (Arg c 1) (flags c) (Some err),
                LogFatal (''Failed generating mock: '' @ err)], 1)"
  | (out_err) tr pkg name g err where "\<not> showVersion c" "\<not> debugParser c"
      "loadInput e c = (tr, Inr (Inr pkg, name))"
      "Generate e pkg name (Arg c 1) (flags c) = Inr g"
      "OutputToDestination e g (destination c) = Some err"
      "main e c =
         (tr @ [NewGenerator, CallGenerate pkg name (Arg c 1) (flags c) None,
                CallOutputToDestination (destination c) (Some err),
                LogFatal (''Failed output: '' @ err)], 1)"
  | (written) tr pkg name g where "\<not> showVersion c" "\<not> debugParser c"
      "loadInput e c = (tr, Inr (Inr pkg, name))"
      "Generate e pkg name (Arg c 1) (flags c) = Inr g"
      "OutputToDestination e g (destination c) = None"
      "main e c =
         (tr @ [NewGenerator, CallGenerate pkg name (Arg c 1) (flags c) None,
                CallOutputToDestination (destination c) None], 0)"
proof (cases "showVersion c")
  case True
  then show ?thesis using version by (simp add: main_def)
next
  case nv: False
  obtain tr res where li: "loadInput e c = (tr, res)" by (cases "loadInput e c")
  show ?thesis
  proof (cases res)
    case (Inl st)
    have "st = 1"
      using li Inl by (cases rule: loadInput_shape [of c e]) auto
    with Inl li nv fatal show ?thesis by (simp add: main_def)
  next
    case (Inr rn)
    obtain r name where rn: "rn = (r, name)" by (cases rn)
    show ?thesis
    proof (cases r)
      case (Inl err)
      with Inr rn li nv load_err show ?thesis by (simp add: main_def)
    next
      case pk: (Inr pkg)
      show ?thesis
      proof (cases "debugParser c")
        case True
        with pk Inr rn li nv dump show ?thesis by (simp add: main_def)
      next
        case nd: False
        show ?thesis
        proof (cases "Generate e pkg name (Arg c 1) (flags c)")
          case (Inl err)
          with nd pk Inr rn li nv gen_err show ?thesis
            by (simp add: main_def generateAndOutput_def)
        next
          case g: (Inr g)
          show ?thesis
          proof (cases "OutputToDestination e g (destination c)")
            case None
            with g nd pk Inr rn li nv written show ?thesis
              by (simp add: main_def generateAndOutput_def)
          next
            case (Some err)
            with g nd pk Inr rn li nv out_err show ?thesis
              by (simp add: main_def generateAndOutput_def)
          qed
        qed
      qed
    qed
  qed
qed

lemma resolvePackageName_fatal_quiet:
  assumes "resolvePackageName e name = (tr, Inl st)"
  shows "\<forall>ev\<in>set tr. \<not> holdsPackage ev \<and> \<not> isExtractor ev \<and> \<not> isGeneration ev
        \<and> \<not> isPrintPackage ev \<and> extracted ev = None"
  using assms by (cases rule: resolvePackageName_shape [of name e]) (auto simp: ev_defs)

lemma loadInput_fatal:
  assumes "loadInput e c = (tr, Inl st)"
  shows "st = 1 \<and> (\<exists>tr' msg. tr = tr' @ [LogFatal msg]) \<and>
    (\<forall>ev\<in>set tr. \<not> holdsPackage ev \<and> \<not> isExtractor ev \<and> \<not> isGeneration ev
        \<and> \<not> isPrintPackage ev \<and> extracted ev = None)"
proof (cases rule: loadInput_shape [of c e])
  case (source r)
  with assms show ?thesis by simp
next
  case nargs
  with assms have "tr = [WriteUsageText, PrintDefaults] @ [LogFatal ''Expected exactly two arguments'']"
    and "st = 1" by simp_all
  then show ?thesis by (simp add: ev_defs)
next
  case (unresolved tr0)
  with assms have eq: "tr = tr0" "st = 1" by simp_all
  from unresolved(3) resolvePackageName_fatal [of e "Arg c 0" tr0 1]
    resolvePackageName_fatal_quiet [of e "Arg c 0" tr0 1] eq
  show ?thesis by simp
next
  case (reflect tr0 found r)
  with assms show ?thesis by simp
qed

lemma loadInput_loaded:
  assumes "loadInput e c = (tr, Inr (r, name))"
  obtains tr' x where "tr = tr' @ [x]" "isExtractor x" "extracted x = Some r"
    "failed x = isl r" "\<not> isGeneration x" "\<not> isPrintPackage x"
    "\<forall>ev\<in>set tr'. \<not> holdsPackage ev \<and> \<not> isExtractor ev \<and> \<not> isGeneration ev
        \<and> \<not> isPrintPackage ev \<and> extracted ev = None \<and> \<not> failed ev"
proof (cases rule: loadInput_shape [of c e])
  case (source r')
  with assms that [of "[]" "CallSourceMode (source c) (imports c) (excludeInterfaces c) (auxFiles c) r"]
  show ?thesis by (auto simp: ev_defs)
next
  case nargs
  with assms show ?thesis by simp
next
  case (unresolved tr0)
  with assms show ?thesis by simp
next
  case (reflect tr0 found r')
  have "\<forall>ev\<in>set tr0. \<not> holdsPackage ev \<and> \<not> isExtractor ev \<and> \<not> isGeneration ev
        \<and> \<not> isPrintPackage ev \<and> extracted ev = None \<and> \<not> failed ev"
    using reflect(3) resolvePackageName_quiet [of e "Arg c 0" tr0 "Inr found"]
      resolvePackageName_found [of e "Arg c 0" tr0 found] by blast
  with reflect assms
    that [of tr0 "CallReflectMode found (Split (Arg c 1) (CHR '','')) r"]
  show ?thesis by (auto simp: ev_defs)
qed

lemma loadInput_package:
  assumes "loadInput e c = (tr, Inr (Inr pkg, name))"
  obtains tr' x where "tr = tr' @ [x]" "isExtractor x" "extracted x = Some (Inr pkg)"
    "\<not> failed x" "\<not> isGeneration x" "\<not> isPrintPackage x"
    "\<forall>ev\<in>set tr'. \<not> holdsPackage ev \<and> \<not> isExtractor ev \<and> \<not> isGeneration ev
        \<and> \<not> isPrintPackage ev \<and> extracted ev = None \<and> \<not> failed ev"
  using assms by (rule loadInput_loaded) simp

lemma loadInput_before_generation:
  assumes "loadInput e c = (tr, r)" and "ev \<in> set tr"
  shows "\<not> isGeneration ev \<and> \<not> isPrintPackage ev"
proof (cases r)
  case (Inl st)
  with assms loadInput_fatal [of e c tr st] show ?thesis by blast
next
  case (Inr rn)
  obtain res name where "rn = (res, name)" by (cases rn)
  with Inr assms(1) have "loadInput e c = (tr, Inr (res, name))" by simp
  then obtain tr' x where "tr = tr' @ [x]" "\<not> isGeneration x" "\<not> isPrintPackage x"
    "\<forall>ev\<in>set tr'. \<not> holdsPackage ev \<and> \<not> isExtractor ev \<and> \<not> isGeneration ev
        \<and> \<not> isPrintPackage ev \<and> extracted ev = None \<and> \<not> failed ev"
    by (rule loadInput_loaded) blast
  with assms(2) show ?thesis by auto
qed

lemma generate_call:
  assumes "CallGenerate pkg name arg fl r \<in> set (trace e c)"
  shows "arg = Arg c 1 \<and> fl = flags c \<and> \<not> showVersion c \<and> \<not> debugParser c \<and>
         (\<exists>tr. loadInput e c = (tr, Inr (Inr pkg, name)))"
proof -
  have no: "\<And>tr r. loadInput e c = (tr, r) \<Longrightarrow> CallGenerate pkg name arg fl r' \<notin> set tr" for r'
    using loadInput_before_generation [of e c _ _ "CallGenerate pkg name arg fl r'"]
    by (auto simp: ev_defs)
  show ?thesis
  proof (cases rule: main_shape [of c e])
    case version
    with assms show ?thesis by (auto simp: trace_def printVersion_def split: if_splits)
  next
    case (fatal tr)
    with assms no [of tr "Inl 1" r] show ?thesis by (simp add: trace_def)
  next
    case (load_err tr err name')
    with assms no [of tr _ r] show ?thesis by (simp add: trace_def)
  next
    case (dump tr pkg' name')
    with assms no [of tr _ r] show ?thesis by (simp add: trace_def)
  next
    case (gen_err tr pkg' name' err)
    with assms no [of tr _ r] show ?thesis by (auto simp: trace_def)
  next
    case (out_err tr pkg' name' g err)
    with assms no [of tr _ r] show ?thesis by (auto simp: trace_def)
  next
    case (written tr pkg' name' g)
    with assms no [of tr _ r] show ?thesis by (auto simp: trace_def)
  qed
qed

lemma Split_nonempty: "Split s sep \<noteq> []"
  by (induction s) (auto split: list.splits)




lemma Arg_pair: "args c = [a, b] \<Longrightarrow> Arg c 0 = a \<and> Arg c 1 = b"
  by (simp add: Arg_def)

lemma main_after_loadInput:
  assumes "\<not> showVersion c"
  shows "\<exists>tl. trace e c = fst (loadInput e c) @ tl \<and>
           (\<forall>ev\<in>set tl. \<not> isExtractor ev \<and> ev \<noteq> WriteUsageText \<and> ev \<noteq> PrintDefaults
               \<and> ev \<noteq> LogFatal ''Expected exactly two arguments'')"
  using assms
  by (cases rule: main_shape [of c e]) (auto simp: trace_def ev_defs)

lemma filter_only_extractors:
  "filter isReflectMode (filter isExtractor xs) = filter isReflectMode xs"
  "filter isSourceMode (filter isExtractor xs) = filter isSourceMode xs"
  by (induction xs) (auto simp: ev_defs)

lemma loadInput_extractors:
  "filter isExtractor (fst (loadInput e c)) =
     (if source c \<noteq> [] then
        [CallSourceMode (source c) (imports c) (excludeInterfaces c) (auxFiles c)
           (SourceMode e (source c) (imports c) (excludeInterfaces c) (auxFiles c))]
      else if NArg c = 2 then
        (case snd (resolvePackageName e (Arg c 0)) of
           Inl st \<Rightarrow> []
         | Inr name \<Rightarrow>
             [CallReflectMode name (Split (Arg c 1) (CHR '',''))
                (ReflectMode e name (Split (Arg c 1) (CHR '','')))])
      else [])"
proof (cases rule: loadInput_shape [of c e])
  case (source r)
  then show ?thesis by (simp add: ev_defs)
next
  case nargs
  then show ?thesis by (simp add: ev_defs NArg_def)
next
  case (unresolved tr)
  from unresolved(3) have "\<forall>ev\<in>set tr. \<not> isExtractor ev"
    using resolvePackageName_quiet(1) [of e "Arg c 0" tr "Inl 1"] by blast
  then have "filter isExtractor tr = []" by (simp add: filter_empty_conv)
  with unresolved show ?thesis by (simp add: NArg_def)
next
  case (reflect tr name r)
  from reflect(3) have "\<forall>ev\<in>set tr. \<not> isExtractor ev"
    using resolvePackageName_quiet(1) [of e "Arg c 0" tr "Inr name"] by blast
  then have "filter isExtractor tr = []" by (simp add: filter_empty_conv)
  with reflect show ?thesis by (simp add: NArg_def ev_defs)
qed

lemma main_extractors:
  "filter isExtractor (trace e c) =
     (if showVersion c then [] else filter isExtractor (fst (loadInput e c)))"
proof (cases "showVersion c")
  case True
  then show ?thesis
    by (auto simp: trace_def main_def printVersion_def ev_defs)
next
  case False
  from main_after_loadInput [OF False, of e] obtain tl where
    "trace e c = fst (loadInput e c) @ tl" "\<forall>ev\<in>set tl. \<not> isExtractor ev" by blast
  moreover from this(2) have "filter isExtractor tl = []" by (simp add: filter_empty_conv)
  ultimately show ?thesis using False by simp
qed


lemma main_tail:
  assumes "\<not> showVersion c"
  shows "\<exists>tl. trace e c = fst (loadInput e c) @ tl \<and>
           (\<forall>ev\<in>set tl. isGeneration ev \<or> isPrintPackage ev \<or>
              (\<exists>msg. ev = LogFatal msg \<and> msg \<noteq> ''Expected exactly two arguments''))"
  using assms
  by (cases rule: main_shape [of c e]) (auto simp: trace_def ev_defs)

lemma extractor_calls:
  obtains
    (none) "filter isExtractor (trace e c) = []"
      "showVersion c \<or> source c = [] \<and>
         (length (args c) \<noteq> 2 \<or> isl (snd (resolvePackageName e (Arg c 0))))"
  | (source) "\<not> showVersion c" "source c \<noteq> []"
      "filter isExtractor (trace e c) =
        [CallSourceMode (source c) (imports c) (excludeInterfaces c) (auxFiles c)
           (SourceMode e (source c) (imports c) (excludeInterfaces c) (auxFiles c))]"
  | (reflect) name where "\<not> showVersion c" "source c = []" "length (args c) = 2"
      "snd (resolvePackageName e (Arg c 0)) = Inr name"
      "filter isExtractor (trace e c) =
        [CallReflectMode name (Split (Arg c 1) (CHR '',''))
           (ReflectMode e name (Split (Arg c 1) (CHR '','')))]"
proof (cases "showVersion c")
  case True
  with none show ?thesis by (simp add: main_extractors)
next
  case nv: False
  show ?thesis
  proof (cases "source c = []")
    case False
    with nv source show ?thesis by (simp add: main_extractors loadInput_extractors)
  next
    case src: True
    show ?thesis
    proof (cases "length (args c) = 2")
      case False
      with nv src none show ?thesis
        by (simp add: main_extractors loadInput_extractors NArg_def)
    next
      case two: True
      show ?thesis
      proof (cases "snd (resolvePackageName e (Arg c 0))")
        case (Inl st)
        with nv src two none show ?thesis
          by (simp add: main_extractors loadInput_extractors NArg_def)
      next
        case (Inr name)
        with nv src two reflect [of name] show ?thesis
          by (simp add: main_extractors loadInput_extractors NArg_def)
      qed
    qed
  qed
qed

lemma source_calls:
  "filter isSourceMode (trace e c) =
     (if \<not> showVersion c \<and> source c \<noteq> [] then
        [CallSourceMode (source c) (imports c) (excludeInterfaces c) (auxFiles c)
           (SourceMode e (source c) (imports c) (excludeInterfaces c) (auxFiles c))]
      else [])"
proof -
  have *: "filter isSourceMode (trace e c) = filter isSourceMode (filter isExtractor (trace e c))"
    by (rule filter_only_extractors(2) [symmetric])
  show ?thesis
  proof (cases rule: extractor_calls [of e c])
    case none
    from none(1) have "filter isSourceMode (trace e c) = []" unfolding * by simp
    with none(2) show ?thesis by auto
  next
    case source
    from source(3) have "filter isSourceMode (trace e c) =
        [CallSourceMode (source c) (imports c) (excludeInterfaces c) (auxFiles c)
           (SourceMode e (source c) (imports c) (excludeInterfaces c) (auxFiles c))]"
      unfolding * by simp
    with source(1,2) show ?thesis by simp
  next
    case (reflect name)
    from reflect(5) have "filter isSourceMode (trace e c) = []" unfolding * by simp
    with reflect(2) show ?thesis by simp
  qed
qed

lemma reflect_calls:
  "filter isReflectMode (trace e c) =
     (if \<not> showVersion c \<and> source c = [] \<and> length (args c) = 2 then
        (case snd (resolvePackageName e (Arg c 0)) of
           Inl st \<Rightarrow> []
         | Inr name \<Rightarrow>
             [CallReflectMode name (Split (Arg c 1) (CHR '',''))
                (ReflectMode e name (Split (Arg c 1) (CHR '','')))])
      else [])"
proof -
  have *: "filter isReflectMode (trace e c) = filter isReflectMode (filter isExtractor (trace e c))"
    by (rule filter_only_extractors(1) [symmetric])
  show ?thesis
  proof (cases rule: extractor_calls [of e c])
    case none
    from none(1) have "filter isReflectMode (trace e c) = []" unfolding * by simp
    with none(2) show ?thesis by (auto simp: isl_def)
  next
    case source
    from source(3) have "filter isReflectMode (trace e c) = []" unfolding * by simp
    with source(1,2) show ?thesis by simp
  next
    case (reflect name)
    from reflect(5) have "filter isReflectMode (trace e c) =
        [CallReflectMode name (Split (Arg c 1) (CHR '',''))
           (ReflectMode e name (Split (Arg c 1) (CHR '','')))]" unfolding * by simp
    with reflect(1-4) show ?thesis by simp
  qed
qed

lemma source_run:
  assumes "\<not> showVersion c" and "source c \<noteq> []"
  shows "\<exists>tl. trace e c =
           CallSourceMode (source c) (imports c) (excludeInterfaces c) (auxFiles c)
             (SourceMode e (source c) (imports c) (excludeInterfaces c) (auxFiles c)) # tl \<and>
           (\<forall>ev\<in>set tl. isGeneration ev \<or> isPrintPackage ev \<or>
              (\<exists>msg. ev = LogFatal msg \<and> msg \<noteq> ''Expected exactly two arguments''))"
  using main_tail [OF assms(1), of e] assms(2)
  by (simp add: loadInput_def Let_def)

lemma source_call_unique:
  assumes "ev \<in> set (trace e c)" and "isSourceMode ev"
  shows "\<not> showVersion c \<and> source c \<noteq> [] \<and>
     ev = CallSourceMode (source c) (imports c) (excludeInterfaces c) (auxFiles c)
            (SourceMode e (source c) (imports c) (excludeInterfaces c) (auxFiles c))"
proof -
  from assms have mem: "ev \<in> set (filter isExtractor (trace e c))"
    by (simp add: ev_defs)
  show ?thesis
  proof (cases rule: extractor_calls [of e c])
    case none
    with mem show ?thesis by simp
  next
    case source
    with mem show ?thesis by simp
  next
    case (reflect name)
    with mem assms(2) show ?thesis by simp
  qed
qed

lemma reflect_call_unique:
  assumes "ev \<in> set (trace e c)" and "isReflectMode ev"
  shows "\<not> showVersion c \<and> source c = [] \<and> length (args c) = 2 \<and>
     (\<exists>name. snd (resolvePackageName e (Arg c 0)) = Inr name \<and>
        ev = CallReflectMode name (Split (Arg c 1) (CHR '',''))
               (ReflectMode e name (Split (Arg c 1) (CHR '',''))))"
proof -
  from assms have mem: "ev \<in> set (filter isExtractor (trace e c))"
    by (simp add: ev_defs)
  show ?thesis
  proof (cases rule: extractor_calls [of e c])
    case none
    with mem show ?thesis by simp
  next
    case source
    with mem assms(2) show ?thesis by simp
  next
    case (reflect name)
    with mem show ?thesis by simp
  qed
qed

lemma version_trace:
  assumes "showVersion c" and "ev \<in> set (trace e c)"
  shows "ev = PrintModuleVersion \<or> (\<exists>text. ev = PrintfStdout text)"
  using assms by (auto simp: trace_def main_def printVersion_def split: if_splits)

lemma tail_event:
  assumes "isGeneration ev \<or> isPrintPackage ev \<or> (\<exists>msg. ev = LogFatal msg \<and> P msg)"
  shows "\<not> isExtractor ev" "\<not> isReflectMode ev" "\<not> isSourceMode ev"
    "ev \<noteq> CallGetwd r" "ev \<noteq> CallPackageNameOfDir dir r'"
    "ev \<noteq> WriteUsageText" "ev \<noteq> PrintDefaults"
  using assms by (cases ev; auto simp: ev_defs)+

lemma source_run_quiet:
  assumes "source c \<noteq> []" and "ev \<in> set (trace e c)"
  shows "ev \<noteq> WriteUsageText \<and> ev \<noteq> PrintDefaults \<and>
         ev \<noteq> LogFatal ''Expected exactly two arguments'' \<and> \<not> isReflectMode ev \<and>
         (\<forall>r. ev \<noteq> CallGetwd r) \<and> (\<forall>dir r. ev \<noteq> CallPackageNameOfDir dir r)"
proof (cases "showVersion c")
  case True
  from version_trace [OF True assms(2)] show ?thesis by auto
next
  case False
  from source_run [OF False assms(1), of e] obtain tl where
    t: "trace e c =
           CallSourceMode (source c) (imports c) (excludeInterfaces c) (auxFiles c)
             (SourceMode e (source c) (imports c) (excludeInterfaces c) (auxFiles c)) # tl"
    and tl: "\<forall>ev\<in>set tl. isGeneration ev \<or> isPrintPackage ev \<or>
              (\<exists>msg. ev = LogFatal msg \<and> msg \<noteq> ''Expected exactly two arguments'')"
    by blast
  from assms(2) consider
    "ev = CallSourceMode (source c) (imports c) (excludeInterfaces c) (auxFiles c)
             (SourceMode e (source c) (imports c) (excludeInterfaces c) (auxFiles c))"
    | "ev \<in> set tl" unfolding t by auto
  then show ?thesis
  proof cases
    case 1
    then show ?thesis by simp
  next
    case 2
    with tl have "isGeneration ev \<or> isPrintPackage ev \<or>
              (\<exists>msg. ev = LogFatal msg \<and> msg \<noteq> ''Expected exactly two arguments'')"
      by (rule bspec)
    then show ?thesis by (cases ev) (auto simp: ev_defs)
  qed
qed

lemmas run_defs = main_def loadInput_def resolvePackageName_def generateAndOutput_def
  printVersion_def usage_def NArg_def Arg_def Let_def

section \<open>The claims\<close>

text \<open>
  C8. With \<open>-version\<close> set the run prints the version and returns with status 0:
  the trace is the output of \<open>printVersion\<close> alone, whatever \<open>-source\<close> and the
  positional arguments are, so it holds no extractor call, no dump, no generation step
  and no failure.
\<close>

theorem version_prints_and_returns:
  assumes "showVersion c"
  shows "main e c = (printVersion e, 0) \<and>
     printVersion e =
       (if version e \<noteq> []
        then [PrintfStdout (''v'' @ version e @ [CHR 0x0A] @ ''Commit: '' @ commit e
                            @ [CHR 0x0A] @ ''Date: '' @ date e @ [CHR 0x0A])]
        else [PrintModuleVersion]) \<and>
     (\<forall>ev\<in>set (trace e c).
        \<not> isExtractor ev \<and> \<not> isGeneration ev \<and> \<not> isPrintPackage ev \<and> \<not> failed ev) \<and>
     exitStatus e c = 0"
  using assms by (auto simp: main_def trace_def exitStatus_def printVersion_def ev_defs)

theorem version_prints_and_returns_witness:
  "showVersion (defaults\<lparr>showVersion := True, source := ''foo.go'', args := [''a'', ''b'']\<rparr>) \<and>
   main exampleEnv (defaults\<lparr>showVersion := True, source := ''foo.go'', args := [''a'', ''b'']\<rparr>)
     = ([PrintModuleVersion], 0) \<and>
   main (exampleEnv\<lparr>version := ''0.4.0''\<rparr>) (defaults\<lparr>showVersion := True\<rparr>)
     = ([PrintfStdout (''v0.4.0'' @ [CHR 0x0A] @ ''Commit: none'' @ [CHR 0x0A] @ ''Date: unknown'' @ [CHR 0x0A])], 0)"
  using version_prints_and_returns
          [of "defaults\<lparr>showVersion := True, source := ''foo.go'', args := [''a'', ''b'']\<rparr>" exampleEnv]
        version_prints_and_returns
          [of "defaults\<lparr>showVersion := True\<rparr>" "exampleEnv\<lparr>version := ''0.4.0''\<rparr>"]
  by (simp add: defaults_def exampleEnv_def)

text \<open>
  C2. With \<open>-debug_parser\<close> set no run makes a generator, calls \<open>Generate\<close> or
  writes to the destination. Once an extractor has answered with a package, the run
  ends with the dump of that very package, right after the extractor call, and returns
  with status 0. When the extractor answers with an error, the run ends with the fatal
  message for it, with status 1, and prints no dump. A dump is only ever printed of a
  package that an extractor call of the same run returned.
\<close>

theorem debug_parser_dumps_and_returns:
  assumes "debugParser c"
  shows "(\<forall>ev\<in>set (trace e c). \<not> isGeneration ev) \<and>
   (\<forall>x\<in>set (trace e c). \<forall>p. extracted x = Some (Inr p) \<longrightarrow>
       (\<exists>tr. trace e c = tr @ [x, PrintPackage p] \<and> (\<forall>ev\<in>set tr. \<not> holdsPackage ev))
       \<and> exitStatus e c = 0) \<and>
   (\<forall>x\<in>set (trace e c). \<forall>err. extracted x = Some (Inl err) \<longrightarrow>
       (\<exists>tr. trace e c = tr @ [x, LogFatal (''Loading input failed: '' @ err)])
       \<and> (\<forall>ev\<in>set (trace e c). \<not> isPrintPackage ev) \<and> exitStatus e c = 1) \<and>
   (\<forall>p. PrintPackage p \<in> set (trace e c) \<longrightarrow>
       (\<exists>x\<in>set (trace e c). extracted x = Some (Inr p)))"
proof (cases rule: main_shape [of c e])
  case version
  then show ?thesis
    by (auto simp: trace_def exitStatus_def printVersion_def ev_defs)
next
  case (fatal tr)
  with loadInput_fatal [of e c tr 1] show ?thesis
    by (auto simp: trace_def exitStatus_def)
next
  case (load_err tr err name)
  from load_err(2) obtain tr' x where x: "tr = tr' @ [x]" "isExtractor x"
      "extracted x = Some (Inl err)" "\<not> isGeneration x" "\<not> isPrintPackage x"
      "\<forall>ev\<in>set tr'. \<not> holdsPackage ev \<and> \<not> isExtractor ev \<and> \<not> isGeneration ev
        \<and> \<not> isPrintPackage ev \<and> extracted ev = None \<and> \<not> failed ev"
    by (rule loadInput_loaded) blast
  have tr: "trace e c = tr' @ [x, LogFatal (''Loading input failed: '' @ err)]"
    and st: "exitStatus e c = 1"
    using load_err(3) x(1) by (simp_all add: trace_def exitStatus_def)
  show ?thesis unfolding tr st using x(2-)
    by (auto simp: ev_defs)
next
  case (dump tr pkg name)
  from dump(3) obtain tr' x where x: "tr = tr' @ [x]" "isExtractor x"
      "extracted x = Some (Inr pkg)" "\<not> isGeneration x" "\<not> isPrintPackage x"
      "\<forall>ev\<in>set tr'. \<not> holdsPackage ev \<and> \<not> isExtractor ev \<and> \<not> isGeneration ev
        \<and> \<not> isPrintPackage ev \<and> extracted ev = None \<and> \<not> failed ev"
    by (rule loadInput_loaded) blast
  have tr: "trace e c = tr' @ [x, PrintPackage pkg]" and st: "exitStatus e c = 0"
    using dump(4) x(1) by (simp_all add: trace_def exitStatus_def)
  show ?thesis unfolding tr st using x(2-)
    by (auto simp: ev_defs)
next
  case (gen_err tr pkg name err)
  with assms show ?thesis by simp
next
  case (out_err tr pkg name g err)
  with assms show ?thesis by simp
next
  case (written tr pkg name g)
  with assms show ?thesis by simp
qed

theorem debug_parser_dumps_and_returns_witness:
  "debugParser (defaults\<lparr>debugParser := True, args := [''database/sql/driver'', ''Conn,Driver'']\<rparr>) \<and>
   main exampleEnv (defaults\<lparr>debugParser := True, args := [''database/sql/driver'', ''Conn,Driver'']\<rparr>) =
     ([CallReflectMode ''database/sql/driver'' [''Conn'', ''Driver'']
         (Inr ''package database/sql/driver''),
       PrintPackage ''package database/sql/driver''], 0) \<and>
   main exampleEnv (defaults\<lparr>debugParser := True, source := ''missing.go''\<rparr>) =
     ([CallSourceMode ''missing.go'' [] [] [] (Inl ''no such file''),
       LogFatal ''Loading input failed: no such file''], 1)"
proof -
  let ?c = "defaults\<lparr>debugParser := True, args := [''database/sql/driver'', ''Conn,Driver'']\<rparr>"
  have h: "debugParser ?c" by (simp add: defaults_def)
  have run: "main exampleEnv ?c =
     ([CallReflectMode ''database/sql/driver'' [''Conn'', ''Driver'']
         (Inr ''package database/sql/driver''),
       PrintPackage ''package database/sql/driver''], 0)"
    by (simp add: run_defs defaults_def exampleEnv_def)
  have run2: "main exampleEnv (defaults\<lparr>debugParser := True, source := ''missing.go''\<rparr>) =
     ([CallSourceMode ''missing.go'' [] [] [] (Inl ''no such file''),
       LogFatal ''Loading input failed: no such file''], 1)"
    by (simp add: run_defs defaults_def exampleEnv_def)
  from debug_parser_dumps_and_returns [OF h, of exampleEnv]
  have "\<forall>ev\<in>set (trace exampleEnv ?c). \<not> isGeneration ev" by (rule conjunct1)
  with h run run2 show ?thesis by simp
qed

text \<open>
  C4. The exit status is 0 or 1, and it is 1 exactly when some step of the run failed.
  A run with status 1 ends in the fatal message and holds no successful call of
  \<open>OutputToDestination\<close>. After a failed extractor call there is no generation step
  at all; after a failed \<open>Generate\<close> there is no call of \<open>OutputToDestination\<close>;
  and every call of \<open>OutputToDestination\<close> comes right after a call of
  \<open>Generate\<close> that returned no error.
\<close>

theorem failure_stops_before_output:
  "(exitStatus e c = 0 \<or> exitStatus e c = 1) \<and>
   ((\<exists>ev\<in>set (trace e c). failed ev) \<longleftrightarrow> exitStatus e c = 1) \<and>
   (exitStatus e c = 1 \<longrightarrow>
      (\<exists>tr msg. trace e c = tr @ [LogFatal msg]) \<and>
      (\<forall>dest. CallOutputToDestination dest None \<notin> set (trace e c))) \<and>
   (\<forall>x\<in>set (trace e c). isExtractor x \<and> failed x \<longrightarrow>
      (\<forall>ev\<in>set (trace e c). \<not> isGeneration ev)) \<and>
   (\<forall>x\<in>set (trace e c). isGenerate x \<and> failed x \<longrightarrow>
      (\<forall>ev\<in>set (trace e c). \<not> isOutput ev)) \<and>
   (\<forall>x\<in>set (trace e c). isOutput x \<longrightarrow>
      (\<exists>tr tl pkg name arg fl. trace e c = tr @ CallGenerate pkg name arg fl None # x # tl))"
proof (cases rule: main_shape [of c e])
  case version
  then show ?thesis
    by (auto simp: trace_def exitStatus_def printVersion_def ev_defs)
next
  case (fatal tr)
  from loadInput_fatal [OF fatal(2)] have q:
    "\<exists>tr' msg. tr = tr' @ [LogFatal msg]"
    "\<forall>ev\<in>set tr. \<not> isExtractor ev \<and> \<not> isGeneration ev" by blast+
  from q(1) have f: "\<exists>ev\<in>set tr. failed ev" by auto
  have tr: "trace e c = tr" and st: "exitStatus e c = 1"
    using fatal(3) by (simp_all add: trace_def exitStatus_def)
  show ?thesis unfolding tr st using q f by (auto simp: ev_defs)
next
  case (load_err tr err name)
  from load_err(2) obtain tr' x where x: "tr = tr' @ [x]" "isExtractor x"
      "extracted x = Some (Inl err)" "\<not> isGeneration x" "\<not> isPrintPackage x"
      "\<forall>ev\<in>set tr'. \<not> holdsPackage ev \<and> \<not> isExtractor ev \<and> \<not> isGeneration ev
        \<and> \<not> isPrintPackage ev \<and> extracted ev = None \<and> \<not> failed ev"
    by (rule loadInput_loaded) blast
  have tr: "trace e c = (tr' @ [x]) @ [LogFatal (''Loading input failed: '' @ err)]"
    and st: "exitStatus e c = 1"
    using load_err(3) x(1) by (simp_all add: trace_def exitStatus_def)
  show ?thesis unfolding tr st using x(2-)
    by (auto simp: ev_defs)
next
  case (dump tr pkg name)
  from dump(3) obtain tr' x where x: "tr = tr' @ [x]" "isExtractor x"
    "extracted x = Some (Inr pkg)"
    "\<not> failed x" "\<not> isGeneration x" "\<not> isPrintPackage x"
    "\<forall>ev\<in>set tr'. \<not> holdsPackage ev \<and> \<not> isExtractor ev \<and> \<not> isGeneration ev
        \<and> \<not> isPrintPackage ev \<and> extracted ev = None \<and> \<not> failed ev"
    by (rule loadInput_package) blast
  have tr: "trace e c = tr' @ [x, PrintPackage pkg]" and st: "exitStatus e c = 0"
    using dump(4) x(1) by (simp_all add: trace_def exitStatus_def)
  show ?thesis unfolding tr st using x(2-)
    by (auto simp: ev_defs)
next
  case (gen_err tr pkg name err)
  from gen_err(3) obtain tr' x where x: "tr = tr' @ [x]" "isExtractor x"
    "extracted x = Some (Inr pkg)"
    "\<not> failed x" "\<not> isGeneration x" "\<not> isPrintPackage x"
    "\<forall>ev\<in>set tr'. \<not> holdsPackage ev \<and> \<not> isExtractor ev \<and> \<not> isGeneration ev
        \<and> \<not> isPrintPackage ev \<and> extracted ev = None \<and> \<not> failed ev"
    by (rule loadInput_package) blast
  have tr: "trace e c = (tr' @ [x, NewGenerator,
        CallGenerate pkg name (Arg c 1) (flags c) (Some err)])
        @ [LogFatal (''Failed generating mock: '' @ err)]"
    and st: "exitStatus e c = 1"
    using gen_err(5) x(1) by (simp_all add: trace_def exitStatus_def)
  show ?thesis unfolding tr st using x(2-)
    by (auto simp: ev_defs)
next
  case (out_err tr pkg name g err)
  from out_err(3) obtain tr' x where x: "tr = tr' @ [x]" "isExtractor x"
    "extracted x = Some (Inr pkg)"
    "\<not> failed x" "\<not> isGeneration x" "\<not> isPrintPackage x"
    "\<forall>ev\<in>set tr'. \<not> holdsPackage ev \<and> \<not> isExtractor ev \<and> \<not> isGeneration ev
        \<and> \<not> isPrintPackage ev \<and> extracted ev = None \<and> \<not> failed ev"
    by (rule loadInput_package) blast
  have tr: "trace e c = (tr' @ [x, NewGenerator]) @
        CallGenerate pkg name (Arg c 1) (flags c) None #
        CallOutputToDestination (destination c) (Some err) #
        [LogFatal (''Failed output: '' @ err)]"
    and st: "exitStatus e c = 1"
    using out_err(6) x(1) by (simp_all add: trace_def exitStatus_def)
  have out: "\<exists>tr tl pkg name arg fl. trace e c =
      tr @ CallGenerate pkg name arg fl None # CallOutputToDestination (destination c) (Some err) # tl"
    unfolding tr by blast
  have fat: "\<exists>tr msg. trace e c = tr @ [LogFatal msg]"
    using out_err(6) by (simp add: trace_def)
  have mem: "set (trace e c) = set tr' \<union> {x, NewGenerator,
        CallGenerate pkg name (Arg c 1) (flags c) None,
        CallOutputToDestination (destination c) (Some err),
        LogFatal (''Failed output: '' @ err)}"
    unfolding tr by auto
  show ?thesis using out fat x(2-) unfolding mem st
    by (auto simp: ev_defs)
next
  case (written tr pkg name g)
  from written(3) obtain tr' x where x: "tr = tr' @ [x]" "isExtractor x"
    "extracted x = Some (Inr pkg)"
    "\<not> failed x" "\<not> isGeneration x" "\<not> isPrintPackage x"
    "\<forall>ev\<in>set tr'. \<not> holdsPackage ev \<and> \<not> isExtractor ev \<and> \<not> isGeneration ev
        \<and> \<not> isPrintPackage ev \<and> extracted ev = None \<and> \<not> failed ev"
    by (rule loadInput_package) blast
  have tr: "trace e c = (tr' @ [x, NewGenerator]) @
        CallGenerate pkg name (Arg c 1) (flags c) None #
        CallOutputToDestination (destination c) None # []"
    and st: "exitStatus e c = 0"
    using written(6) x(1) by (simp_all add: trace_def exitStatus_def)
  have out: "\<exists>tr tl pkg name arg fl. trace e c =
      tr @ CallGenerate pkg name arg fl None # CallOutputToDestination (destination c) None # tl"
    unfolding tr by blast
  have mem: "set (trace e c) = set tr' \<union> {x, NewGenerator,
        CallGenerate pkg name (Arg c 1) (flags c) None,
        CallOutputToDestination (destination c) None}"
    unfolding tr by auto
  show ?thesis using out x(2-) unfolding mem st
    by (auto simp: ev_defs)
qed

theorem failure_stops_before_output_witness:
  "main exampleEnv (defaults\<lparr>source := ''missing.go''\<rparr>) =
     ([CallSourceMode ''missing.go'' [] [] [] (Inl ''no such file''),
       LogFatal ''Loading input failed: no such file''], 1) \<and>
   exitStatus exampleEnv (defaults\<lparr>source := ''foo.go'', packageOut := ''bad''\<rparr>) = 1 \<and>
   trace exampleEnv (defaults\<lparr>source := ''foo.go'', packageOut := ''bad''\<rparr>) =
     [CallSourceMode ''foo.go'' [] [] [] (Inr ''package of foo.go''),
      NewGenerator,
      CallGenerate ''package of foo.go'' [] []
        (flags (defaults\<lparr>source := ''foo.go'', packageOut := ''bad''\<rparr>)) (Some ''bad package name''),
      LogFatal ''Failed generating mock: bad package name'']"
proof -
  let ?c = "defaults\<lparr>source := ''foo.go'', packageOut := ''bad''\<rparr>"
  have run1: "main exampleEnv (defaults\<lparr>source := ''missing.go''\<rparr>) =
     ([CallSourceMode ''missing.go'' [] [] [] (Inl ''no such file''),
       LogFatal ''Loading input failed: no such file''], 1)"
    by (simp add: run_defs defaults_def exampleEnv_def)
  have run2: "main exampleEnv ?c =
     ([CallSourceMode ''foo.go'' [] [] [] (Inr ''package of foo.go''),
      NewGenerator,
      CallGenerate ''package of foo.go'' [] [] (flags ?c) (Some ''bad package name''),
      LogFatal ''Failed generating mock: bad package name''], 1)"
    by (simp add: run_defs defaults_def exampleEnv_def flags_def)
  from failure_stops_before_output [of exampleEnv ?c]
  have "exitStatus exampleEnv ?c = 0 \<or> exitStatus exampleEnv ?c = 1" by (rule conjunct1)
  with run1 run2 show ?thesis by (simp add: trace_def exitStatus_def)
qed

text \<open>
  C6. Every call of \<open>Generate\<close> receives the options structure built at lines 64 to
  79, and each field of that structure is the value of its flag: the destination
  package, the self-package path, the mock-name overrides, the typed mode, the four
  boolean header toggles and the copyright file, and the source-mode fields as well.
\<close>

theorem flags_carry_the_options:
  "(\<forall>ev\<in>set (trace e c). \<forall>pkg name arg fl r.
       ev = CallGenerate pkg name arg fl r \<longrightarrow> fl = flags c) \<and>
   PackageOut (flags c) = packageOut c \<and>
   SelfPackage (flags c) = selfPackage c \<and>
   MockNames (flags c) = mockNames c \<and>
   Typed (flags c) = typed c \<and>
   WriteCmdComment (flags c) = writeCmdComment c \<and>
   WritePkgComment (flags c) = writePkgComment c \<and>
   WriteSourceComment (flags c) = writeSourceComment c \<and>
   WriteGenerateDirective (flags c) = writeGenerateDirective c \<and>
   CopyrightFile (flags c) = copyrightFile c \<and>
   Source (flags c) = source c \<and>
   Destination (flags c) = destination c \<and>
   Imports (flags c) = imports c \<and>
   AuxFiles (flags c) = auxFiles c \<and>
   ExcludeInterfaces (flags c) = excludeInterfaces c"
proof -
  have "\<forall>ev\<in>set (trace e c). \<forall>pkg name arg fl r.
       ev = CallGenerate pkg name arg fl r \<longrightarrow> fl = flags c"
    using generate_call [of _ _ _ _ _ e c] by blast
  then show ?thesis by (simp add: flags_def)
qed

theorem flags_carry_the_options_witness:
  "main exampleEnv (defaults\<lparr>source := ''foo.go'', packageOut := ''mocks'', typed := True,
       writeCmdComment := False, copyrightFile := ''LICENSE''\<rparr>) =
     ([CallSourceMode ''foo.go'' [] [] [] (Inr ''package of foo.go''),
       NewGenerator,
       CallGenerate ''package of foo.go'' [] []
         \<lparr>Source = ''foo.go'', Destination = [], MockNames = [], PackageOut = ''mocks'',
          SelfPackage = [], WriteCmdComment = False, WritePkgComment = True,
          WriteSourceComment = True, WriteGenerateDirective = False,
          CopyrightFile = ''LICENSE'', Typed = True, Imports = [], AuxFiles = [],
          ExcludeInterfaces = []\<rparr> None,
       CallOutputToDestination [] None], 0)"
proof -
  let ?c = "defaults\<lparr>source := ''foo.go'', packageOut := ''mocks'', typed := True,
       writeCmdComment := False, copyrightFile := ''LICENSE''\<rparr>"
  have run: "main exampleEnv ?c =
     ([CallSourceMode ''foo.go'' [] [] [] (Inr ''package of foo.go''),
       NewGenerator,
       CallGenerate ''package of foo.go'' [] [] (flags ?c) None,
       CallOutputToDestination [] None], 0)"
    by (simp add: run_defs defaults_def exampleEnv_def flags_def)
  from flags_carry_the_options [of exampleEnv ?c]
  have "Typed (flags ?c) = typed ?c" by blast
  with run show ?thesis by (simp add: flags_def defaults_def)
qed

text \<open>
  C7. A run that is neither a version run nor a debug run and returns with status 0
  consists of the steps before extraction, one extractor call that answers with a
  package, the new generator, one call of \<open>Generate\<close> on that very package, and the
  output. The extractor call and the call of \<open>Generate\<close> are the only events of
  the run that hold a package.
\<close>

theorem one_package_per_generation:
  assumes "\<not> showVersion c" and "\<not> debugParser c" and "exitStatus e c = 0"
  shows "\<exists>tr x pkg name.
     trace e c = tr @ [x, NewGenerator, CallGenerate pkg name (Arg c 1) (flags c) None,
                       CallOutputToDestination (destination c) None] \<and>
     isExtractor x \<and> extracted x = Some (Inr pkg) \<and>
     (\<forall>ev\<in>set tr. \<not> holdsPackage ev) \<and>
     filter isExtractor (trace e c) = [x] \<and>
     filter isGenerate (trace e c) = [CallGenerate pkg name (Arg c 1) (flags c) None] \<and>
     filter holdsPackage (trace e c) = [x, CallGenerate pkg name (Arg c 1) (flags c) None]"
proof (cases rule: main_shape [of c e])
  case (written tr pkg name g)
  from written(3) obtain tr' x where x: "tr = tr' @ [x]" "isExtractor x"
    "extracted x = Some (Inr pkg)"
    "\<not> failed x" "\<not> isGeneration x" "\<not> isPrintPackage x"
    "\<forall>ev\<in>set tr'. \<not> holdsPackage ev \<and> \<not> isExtractor ev \<and> \<not> isGeneration ev
        \<and> \<not> isPrintPackage ev \<and> extracted ev = None \<and> \<not> failed ev"
    by (rule loadInput_package) blast
  have tr: "trace e c = tr' @ [x, NewGenerator, CallGenerate pkg name (Arg c 1) (flags c) None,
                       CallOutputToDestination (destination c) None]"
    using written(6) x(1) by (simp add: trace_def)
  from x(7) have none: "filter holdsPackage tr' = []" "filter isExtractor tr' = []"
    "filter isGenerate tr' = []"
    by (auto simp: filter_empty_conv ev_defs)
  have "filter isExtractor (trace e c) = [x]"
    "filter isGenerate (trace e c) = [CallGenerate pkg name (Arg c 1) (flags c) None]"
    "filter holdsPackage (trace e c) = [x, CallGenerate pkg name (Arg c 1) (flags c) None]"
    unfolding tr using x(2,5) none by (auto simp: ev_defs)
  with tr x(2,3,7) show ?thesis by blast
qed (use assms in \<open>simp_all add: exitStatus_def\<close>)

theorem one_package_per_generation_witness:
  "\<not> showVersion (defaults\<lparr>args := [''.'', ''Conn,Driver'']\<rparr>) \<and>
   \<not> debugParser (defaults\<lparr>args := [''.'', ''Conn,Driver'']\<rparr>) \<and>
   exitStatus exampleEnv (defaults\<lparr>args := [''.'', ''Conn,Driver'']\<rparr>) = 0 \<and>
   trace exampleEnv (defaults\<lparr>args := [''.'', ''Conn,Driver'']\<rparr>) =
     [CallGetwd (Inr ''/work''),
      CallPackageNameOfDir ''/work'' (Inr ''example.com/work''),
      CallReflectMode ''example.com/work'' [''Conn'', ''Driver'']
        (Inr ''package example.com/work''),
      NewGenerator,
      CallGenerate ''package example.com/work'' ''example.com/work'' ''Conn,Driver''
        (flags (defaults\<lparr>args := [''.'', ''Conn,Driver'']\<rparr>)) None,
      CallOutputToDestination [] None]"
proof -
  let ?c = "defaults\<lparr>args := [''.'', ''Conn,Driver'']\<rparr>"
  have run: "main exampleEnv ?c =
     ([CallGetwd (Inr ''/work''),
      CallPackageNameOfDir ''/work'' (Inr ''example.com/work''),
      CallReflectMode ''example.com/work'' [''Conn'', ''Driver'']
        (Inr ''package example.com/work''),
      NewGenerator,
      CallGenerate ''package example.com/work'' ''example.com/work'' ''Conn,Driver''
        (flags ?c) None,
      CallOutputToDestination [] None], 0)"
    by (simp add: run_defs defaults_def exampleEnv_def flags_def)
  have h1: "\<not> showVersion ?c" and h2: "\<not> debugParser ?c"
    by (simp_all add: defaults_def)
  have h3: "exitStatus exampleEnv ?c = 0" using run by (simp add: exitStatus_def)
  from one_package_per_generation [OF h1 h2 h3]
  have "\<exists>x. filter isExtractor (trace exampleEnv ?c) = [x]" by blast
  with h1 h2 h3 run show ?thesis by (simp add: trace_def)
qed







text \<open>
  C5. Every call of \<open>SourceMode\<close> in a run is the call of line 90: on the values
  of \<open>-source\<close>, \<open>-imports\<close>, \<open>-exclude_interfaces\<close> and \<open>-aux_files\<close>,
  in this order and unchanged; without \<open>-version\<close> and with a non-empty
  \<open>-source\<close> it is the first step of the run. Every call of \<open>ReflectMode\<close> is
  on the resolved package locator and the split second argument only, and the calls of
  \<open>ReflectMode\<close> in a run do not depend on the exclusion list.
\<close>

theorem source_mode_inputs:
  "(\<forall>ev\<in>set (trace e c). isSourceMode ev \<longrightarrow>
      ev = CallSourceMode (source c) (imports c) (excludeInterfaces c) (auxFiles c)
             (SourceMode e (source c) (imports c) (excludeInterfaces c) (auxFiles c))) \<and>
   (\<not> showVersion c \<and> source c \<noteq> [] \<longrightarrow>
      (\<exists>tl. trace e c =
         CallSourceMode (source c) (imports c) (excludeInterfaces c) (auxFiles c)
           (SourceMode e (source c) (imports c) (excludeInterfaces c) (auxFiles c)) # tl)) \<and>
   (\<forall>ev\<in>set (trace e c). isReflectMode ev \<longrightarrow>
      source c = [] \<and>
      (\<exists>name. snd (resolvePackageName e (Arg c 0)) = Inr name \<and>
         ev = CallReflectMode name (Split (Arg c 1) (CHR '',''))
                (ReflectMode e name (Split (Arg c 1) (CHR '','')))))  \<and>
   filter isReflectMode (trace e (c\<lparr>excludeInterfaces := x\<rparr>)) =
     filter isReflectMode (trace e c)"
proof -
  have a: "\<forall>ev\<in>set (trace e c). isSourceMode ev \<longrightarrow>
      ev = CallSourceMode (source c) (imports c) (excludeInterfaces c) (auxFiles c)
             (SourceMode e (source c) (imports c) (excludeInterfaces c) (auxFiles c))"
    using source_call_unique [of _ e c] by blast
  have b: "\<not> showVersion c \<and> source c \<noteq> [] \<longrightarrow>
      (\<exists>tl. trace e c =
         CallSourceMode (source c) (imports c) (excludeInterfaces c) (auxFiles c)
           (SourceMode e (source c) (imports c) (excludeInterfaces c) (auxFiles c)) # tl)"
    using source_run [of c e] by blast
  have d: "\<forall>ev\<in>set (trace e c). isReflectMode ev \<longrightarrow>
      source c = [] \<and>
      (\<exists>name. snd (resolvePackageName e (Arg c 0)) = Inr name \<and>
         ev = CallReflectMode name (Split (Arg c 1) (CHR '',''))
                (ReflectMode e name (Split (Arg c 1) (CHR '',''))))"
    using reflect_call_unique [of _ e c] by blast
  have f: "filter isReflectMode (trace e (c\<lparr>excludeInterfaces := x\<rparr>)) =
     filter isReflectMode (trace e c)"
  proof -
    have A: "Arg (c\<lparr>excludeInterfaces := x\<rparr>) i = Arg c i" for i
      by (simp add: Arg_def)
    show ?thesis unfolding reflect_calls A by simp
  qed
  from a b d f show ?thesis by blast
qed

theorem source_mode_inputs_witness:
  "\<not> showVersion (defaults\<lparr>source := ''foo.go'', imports := ''x=example.com/x'',
        excludeInterfaces := ''Hidden'', auxFiles := ''y=y.go''\<rparr>) \<and>
   trace exampleEnv (defaults\<lparr>source := ''foo.go'', imports := ''x=example.com/x'',
        excludeInterfaces := ''Hidden'', auxFiles := ''y=y.go''\<rparr>) =
     [CallSourceMode ''foo.go'' ''x=example.com/x'' ''Hidden'' ''y=y.go''
        (Inr ''package of foo.go''),
      NewGenerator,
      CallGenerate ''package of foo.go'' [] []
        (flags (defaults\<lparr>source := ''foo.go'', imports := ''x=example.com/x'',
           excludeInterfaces := ''Hidden'', auxFiles := ''y=y.go''\<rparr>)) None,
      CallOutputToDestination [] None]"
proof -
  let ?c = "defaults\<lparr>source := ''foo.go'', imports := ''x=example.com/x'',
        excludeInterfaces := ''Hidden'', auxFiles := ''y=y.go''\<rparr>"
  have h: "\<not> showVersion ?c \<and> source ?c \<noteq> []" by (simp add: defaults_def)
  have run: "main exampleEnv ?c =
     ([CallSourceMode ''foo.go'' ''x=example.com/x'' ''Hidden'' ''y=y.go''
        (Inr ''package of foo.go''),
      NewGenerator,
      CallGenerate ''package of foo.go'' [] [] (flags ?c) None,
      CallOutputToDestination [] None], 0)"
    by (simp add: run_defs defaults_def exampleEnv_def flags_def)
  from source_mode_inputs [of exampleEnv ?c] h
  have "\<exists>tl. trace exampleEnv ?c =
         CallSourceMode (source ?c) (imports ?c) (excludeInterfaces ?c) (auxFiles ?c)
           (SourceMode exampleEnv (source ?c) (imports ?c) (excludeInterfaces ?c) (auxFiles ?c)) # tl"
    by blast
  with h run show ?thesis by (simp add: trace_def)
qed

text \<open>
  C9. In a run with an empty \<open>-source\<close> and the positional arguments \<open>"."\<close>
  and \<open>b\<close>: every call of \<open>ReflectMode\<close> comes right after a successful
  \<open>os.Getwd\<close> and a successful \<open>PackageNameOfDir\<close> on that directory, and its
  first argument is the name \<open>PackageNameOfDir\<close> returned. A failed \<open>os.Getwd\<close>
  or \<open>PackageNameOfDir\<close> is followed by the fatal message only, so the run ends
  with status 1 and without a call of \<open>ReflectMode\<close>. Without \<open>-version\<close> the
  lookup does take place. \<open>ReflectMode\<close> is called on \<open>"."\<close> only if that is
  the name \<open>PackageNameOfDir\<close> itself returned.
\<close>

theorem dot_is_resolved_before_extraction:
  assumes "source c = []" and "args c = [''.'', b]"
  shows
   "(\<forall>ev\<in>set (trace e c). isReflectMode ev \<longrightarrow>
       (\<exists>dir name tl. Getwd e = Inr dir \<and> PackageNameOfDir e dir = Inr name \<and>
          ev = CallReflectMode name (Split b (CHR '','')) (ReflectMode e name (Split b (CHR '',''))) \<and>
          trace e c = CallGetwd (Inr dir) # CallPackageNameOfDir dir (Inr name) # ev # tl)) \<and>
    (\<forall>err. CallGetwd (Inl err) \<in> set (trace e c) \<longrightarrow>
       main e c = ([CallGetwd (Inl err),
                    LogFatal (''Get current directory failed: '' @ err)], 1)) \<and>
    (\<forall>dir err. CallPackageNameOfDir dir (Inl err) \<in> set (trace e c) \<longrightarrow>
       main e c = ([CallGetwd (Inr dir), CallPackageNameOfDir dir (Inl err),
                    LogFatal (''Parse package name failed: '' @ err)], 1)) \<and>
    (\<not> showVersion c \<longrightarrow>
       (case Getwd e of
          Inl err \<Rightarrow>
            main e c = ([CallGetwd (Inl err),
                         LogFatal (''Get current directory failed: '' @ err)], 1)
        | Inr dir \<Rightarrow>
            (case PackageNameOfDir e dir of
               Inl err \<Rightarrow>
                 main e c = ([CallGetwd (Inr dir), CallPackageNameOfDir dir (Inl err),
                              LogFatal (''Parse package name failed: '' @ err)], 1)
             | Inr name \<Rightarrow>
                 (\<exists>tl. trace e c =
                    CallGetwd (Inr dir) # CallPackageNameOfDir dir (Inr name) #
                    CallReflectMode name (Split b (CHR '',''))
                      (ReflectMode e name (Split b (CHR '',''))) # tl \<and>
                    (\<forall>ev\<in>set tl. \<not> isExtractor ev))))) \<and>
    (\<forall>ifaces r. CallReflectMode ''.'' ifaces r \<in> set (trace e c) \<longrightarrow>
       (\<exists>dir. Getwd e = Inr dir \<and> PackageNameOfDir e dir = Inr ''.''))"
  (is "?reflect \<and> ?nodir \<and> ?noname \<and> ?lookup \<and> ?dot")
proof (cases "showVersion c")
  case True
  have v: "\<not> isReflectMode ev \<and> ev \<noteq> CallGetwd r \<and> ev \<noteq> CallPackageNameOfDir dir r'
      \<and> ev \<noteq> CallReflectMode n i r''"
    if "ev \<in> set (trace e c)" for ev r dir r' n i r''
    using version_trace [OF True that] by auto
  have c1: ?reflect using v by blast
  have c2: ?nodir using v by blast
  have c3: ?noname using v by blast
  have c4: ?lookup using True by simp
  have c5: ?dot using v by blast
  show ?thesis using c1 c2 c3 c4 c5 by (intro conjI)
next
  case nv: False
  note A = Arg_pair [OF assms(2)]
  have two: "NArg c = 2" using assms(2) by (simp add: NArg_def)
  from main_tail [OF nv, of e] obtain tl where
    tl: "trace e c = fst (loadInput e c) @ tl"
      "\<forall>ev\<in>set tl. isGeneration ev \<or> isPrintPackage ev \<or>
              (\<exists>msg. ev = LogFatal msg \<and> msg \<noteq> ''Expected exactly two arguments'')"
    by blast
  show ?thesis
  proof (cases rule: resolvePackageName_shape [of "''.''" e])
    case direct
    then show ?thesis by simp
  next
    case (no_dir err)
    with nv assms two A have m: "main e c =
        ([CallGetwd (Inl err), LogFatal (''Get current directory failed: '' @ err)], 1)"
      by (simp add: main_def loadInput_def Let_def)
    then have t: "trace e c =
        [CallGetwd (Inl err), LogFatal (''Get current directory failed: '' @ err)]"
      by (simp add: trace_def)
    have c1: ?reflect unfolding t by simp
    have c2: ?nodir unfolding t using m by simp
    have c3: ?noname unfolding t by simp
    have c4: ?lookup using no_dir(2) m by simp
    have c5: ?dot unfolding t by simp
    show ?thesis using c1 c2 c3 c4 c5 by (intro conjI)
  next
    case (no_name dir err)
    with nv assms two A have m: "main e c =
        ([CallGetwd (Inr dir), CallPackageNameOfDir dir (Inl err),
          LogFatal (''Parse package name failed: '' @ err)], 1)"
      by (simp add: main_def loadInput_def Let_def)
    then have t: "trace e c =
        [CallGetwd (Inr dir), CallPackageNameOfDir dir (Inl err),
          LogFatal (''Parse package name failed: '' @ err)]"
      by (simp add: trace_def)
    have c1: ?reflect unfolding t by simp
    have c2: ?nodir unfolding t by simp
    have c3: ?noname unfolding t using m by simp
    have c4: ?lookup using no_name(2,3) m by simp
    have c5: ?dot unfolding t by simp
    show ?thesis using c1 c2 c3 c4 c5 by (intro conjI)
  next
    case (resolved dir found)
    let ?R = "CallReflectMode found (Split b (CHR '',''))
                (ReflectMode e found (Split b (CHR '','')))"
    from resolved assms two A have "fst (loadInput e c) =
        [CallGetwd (Inr dir), CallPackageNameOfDir dir (Inr found), ?R]"
      by (simp add: loadInput_def Let_def)
    with tl(1) have t: "trace e c =
        CallGetwd (Inr dir) # CallPackageNameOfDir dir (Inr found) # ?R # tl"
      by simp
    have q1: "\<not> isExtractor ev" "\<not> isReflectMode ev" if "ev \<in> set tl" for ev
    proof -
      from tl(2) that have "isGeneration ev \<or> isPrintPackage ev \<or>
              (\<exists>msg. ev = LogFatal msg \<and> msg \<noteq> ''Expected exactly two arguments'')"
        by (rule bspec)
      then show "\<not> isExtractor ev" "\<not> isReflectMode ev"
        by (rule tail_event)+
    qed
    have q2: "CallGetwd r \<notin> set tl" for r
      using q1(1) [of "CallGetwd r"] tl(2) by (auto simp: ev_defs)
    have q3: "CallPackageNameOfDir d r \<notin> set tl" for d r
      using tl(2) by (auto simp: ev_defs)
    have q4: "CallReflectMode n i r \<notin> set tl" for n i r
      using q1(2) [of "CallReflectMode n i r"] by auto
    have mem: "ev \<in> set (trace e c) \<longleftrightarrow>
        ev = CallGetwd (Inr dir) \<or> ev = CallPackageNameOfDir dir (Inr found) \<or>
        ev = ?R \<or> ev \<in> set tl" for ev
      unfolding t by simp
    have c1: ?reflect
    proof (intro ballI impI)
      fix ev assume "ev \<in> set (trace e c)" and r: "isReflectMode ev"
      then consider "ev = CallGetwd (Inr dir)" | "ev = CallPackageNameOfDir dir (Inr found)"
        | "ev = ?R" | "ev \<in> set tl" unfolding mem by blast
      then have "ev = ?R"
      proof cases
        case 1 with r show ?thesis by simp
      next
        case 2 with r show ?thesis by simp
      next
        case 3 then show ?thesis .
      next
        case 4 with q1(2) r show ?thesis by blast
      qed
      with t resolved(2,3) show "\<exists>dir name tl. Getwd e = Inr dir \<and>
          PackageNameOfDir e dir = Inr name \<and>
          ev = CallReflectMode name (Split b (CHR '','')) (ReflectMode e name (Split b (CHR '',''))) \<and>
          trace e c = CallGetwd (Inr dir) # CallPackageNameOfDir dir (Inr name) # ev # tl"
        by blast
    qed
    have c2: ?nodir
    proof (intro allI impI)
      fix err assume "CallGetwd (Inl err) \<in> set (trace e c)"
      then have False unfolding mem using q2 by simp
      then show "main e c = ([CallGetwd (Inl err),
                    LogFatal (''Get current directory failed: '' @ err)], 1)" ..
    qed
    have c3: ?noname
    proof (intro allI impI)
      fix d err assume "CallPackageNameOfDir d (Inl err) \<in> set (trace e c)"
      then have False unfolding mem using q3 by simp
      then show "main e c = ([CallGetwd (Inr d), CallPackageNameOfDir d (Inl err),
                    LogFatal (''Parse package name failed: '' @ err)], 1)" ..
    qed
    have "\<forall>ev\<in>set tl. \<not> isExtractor ev" using q1(1) by blast
    with t have "\<exists>tl. trace e c =
                    CallGetwd (Inr dir) # CallPackageNameOfDir dir (Inr found) #
                    CallReflectMode found (Split b (CHR '',''))
                      (ReflectMode e found (Split b (CHR '',''))) # tl \<and>
                    (\<forall>ev\<in>set tl. \<not> isExtractor ev)"
      by blast
    with resolved(2,3) have c4: ?lookup by simp
    have c5: ?dot
    proof (intro allI impI)
      fix ifaces r assume "CallReflectMode ''.'' ifaces r \<in> set (trace e c)"
      then have "found = ''.''" unfolding mem using q4 by simp
      with resolved(2,3) show "\<exists>dir. Getwd e = Inr dir \<and> PackageNameOfDir e dir = Inr ''.''"
        by simp
    qed
    show ?thesis using c1 c2 c3 c4 c5 by (intro conjI)
  qed
qed

theorem dot_is_resolved_before_extraction_witness:
  "source (defaults\<lparr>args := [''.'', ''Conn,Driver'']\<rparr>) = [] \<and>
   args (defaults\<lparr>args := [''.'', ''Conn,Driver'']\<rparr>) = [''.'', ''Conn,Driver''] \<and>
   trace exampleEnv (defaults\<lparr>args := [''.'', ''Conn,Driver'']\<rparr>) =
     [CallGetwd (Inr ''/work''),
      CallPackageNameOfDir ''/work'' (Inr ''example.com/work''),
      CallReflectMode ''example.com/work'' [''Conn'', ''Driver'']
        (Inr ''package example.com/work''),
      NewGenerator,
      CallGenerate ''package example.com/work'' ''example.com/work'' ''Conn,Driver''
        (flags (defaults\<lparr>args := [''.'', ''Conn,Driver'']\<rparr>)) None,
      CallOutputToDestination [] None] \<and>
   main (exampleEnv\<lparr>Getwd := Inl ''no such directory''\<rparr>)
        (defaults\<lparr>args := [''.'', ''Conn,Driver'']\<rparr>) =
     ([CallGetwd (Inl ''no such directory''),
       LogFatal ''Get current directory failed: no such directory''], 1) \<and>
   main (exampleEnv\<lparr>PackageNameOfDir := (\<lambda>dir. Inl ''no go files'')\<rparr>)
        (defaults\<lparr>args := [''.'', ''Conn,Driver'']\<rparr>) =
     ([CallGetwd (Inr ''/work''), CallPackageNameOfDir ''/work'' (Inl ''no go files''),
       LogFatal ''Parse package name failed: no go files''], 1)"
proof -
  let ?c = "defaults\<lparr>args := [''.'', ''Conn,Driver'']\<rparr>"
  let ?e1 = "exampleEnv\<lparr>Getwd := Inl ''no such directory''\<rparr>"
  let ?e2 = "exampleEnv\<lparr>PackageNameOfDir := (\<lambda>dir. Inl ''no go files'')\<rparr>"
  have h1: "source ?c = []" and h2: "args ?c = [''.'', ''Conn,Driver'']"
    and h3: "\<not> showVersion ?c"
    by (simp_all add: defaults_def)
  have run: "main exampleEnv ?c =
     ([CallGetwd (Inr ''/work''),
      CallPackageNameOfDir ''/work'' (Inr ''example.com/work''),
      CallReflectMode ''example.com/work'' [''Conn'', ''Driver'']
        (Inr ''package example.com/work''),
      NewGenerator,
      CallGenerate ''package example.com/work'' ''example.com/work'' ''Conn,Driver''
        (flags ?c) None,
      CallOutputToDestination [] None], 0)"
    by (simp add: run_defs defaults_def exampleEnv_def flags_def)
  have g1: "Getwd ?e1 = Inl ''no such directory''"
    and g2: "Getwd ?e2 = Inr ''/work''"
    and g3: "PackageNameOfDir ?e2 ''/work'' = Inl ''no go files''"
    by (simp_all add: exampleEnv_def)
  from dot_is_resolved_before_extraction [OF h1 h2, of ?e1] h3 g1
  have fail1: "main ?e1 ?c =
     ([CallGetwd (Inl ''no such directory''),
       LogFatal (''Get current directory failed: '' @ ''no such directory'')], 1)"
    by simp
  from dot_is_resolved_before_extraction [OF h1 h2, of ?e2] h3 g2 g3
  have fail2: "main ?e2 ?c =
     ([CallGetwd (Inr ''/work''), CallPackageNameOfDir ''/work'' (Inl ''no go files''),
       LogFatal (''Parse package name failed: '' @ ''no go files'')], 1)"
    by simp
  from h1 h2 run fail1 fail2 show ?thesis by (simp add: trace_def)
qed

text \<open>
  C10. With a non-empty \<open>-source\<close>, whatever the positional arguments are: the
  run prints no usage, has no argument-count failure and no call of \<open>ReflectMode\<close>;
  its extractor calls are the same for every list of positional arguments; and without
  \<open>-version\<close> its first step is the call of \<open>SourceMode\<close>. In both modes every
  call of \<open>Generate\<close> receives \<open>flag.Arg(1)\<close> as its third argument, which is
  the second positional argument, or the empty string when there is none; in source
  mode its second argument, the package name, is empty.
\<close>

theorem source_flag_overrides_arguments:
  "(source c \<noteq> [] \<longrightarrow>
      (\<forall>ev\<in>set (trace e c).
         ev \<noteq> WriteUsageText \<and> ev \<noteq> PrintDefaults \<and>
         ev \<noteq> LogFatal ''Expected exactly two arguments'' \<and> \<not> isReflectMode ev)) \<and>
   (source c \<noteq> [] \<longrightarrow>
      filter isExtractor (trace e (c\<lparr>args := xs\<rparr>)) = filter isExtractor (trace e c)) \<and>
   (\<not> showVersion c \<and> source c \<noteq> [] \<longrightarrow>
      (\<exists>tl. trace e c =
         CallSourceMode (source c) (imports c) (excludeInterfaces c) (auxFiles c)
           (SourceMode e (source c) (imports c) (excludeInterfaces c) (auxFiles c)) # tl)) \<and>
   (\<forall>ev\<in>set (trace e c). \<forall>pkg name arg fl r. ev = CallGenerate pkg name arg fl r \<longrightarrow>
      arg = Arg c 1 \<and> (source c \<noteq> [] \<longrightarrow> name = [])) \<and>
   (length (args c) < 2 \<longrightarrow> Arg c 1 = []) \<and>
   (\<forall>a b rest. args c = a # b # rest \<longrightarrow> Arg c 1 = b)"
  (is "?nocheck \<and> ?unused \<and> ?first \<and> ?passed \<and> ?absent \<and> ?second")
proof -
  have c1: ?nocheck using source_run_quiet [of c _ e] by blast
  have c2: ?unused
    by (simp add: main_extractors loadInput_extractors)
  have c3: ?first using source_run [of c e] by blast
  have c4: ?passed
  proof (intro ballI allI impI)
    fix ev pkg name arg fl r
    assume "ev \<in> set (trace e c)" "ev = CallGenerate pkg name arg fl r"
    then have "CallGenerate pkg name arg fl r \<in> set (trace e c)" by simp
    from generate_call [OF this] obtain tr where
      g: "arg = Arg c 1" "loadInput e c = (tr, Inr (Inr pkg, name))" by blast
    have "name = []" if "source c \<noteq> []"
      using g(2) that by (simp add: loadInput_def Let_def)
    with g(1) show "arg = Arg c 1 \<and> (source c \<noteq> [] \<longrightarrow> name = [])" by blast
  qed
  have c5: ?absent by (simp add: Arg_def)
  have c6: ?second by (simp add: Arg_def)
  show ?thesis using c1 c2 c3 c4 c5 c6 by (intro conjI)
qed

theorem source_flag_overrides_arguments_witness:
  "source (defaults\<lparr>source := ''foo.go'', args := [''x'', ''stray'', ''more'']\<rparr>) = ''foo.go'' \<and>
   trace exampleEnv (defaults\<lparr>source := ''foo.go'', args := [''x'', ''stray'', ''more'']\<rparr>) =
     [CallSourceMode ''foo.go'' [] [] [] (Inr ''package of foo.go''),
      NewGenerator,
      CallGenerate ''package of foo.go'' [] ''stray''
        (flags (defaults\<lparr>source := ''foo.go'', args := [''x'', ''stray'', ''more'']\<rparr>)) None,
      CallOutputToDestination [] None] \<and>
   trace exampleEnv (defaults\<lparr>source := ''foo.go''\<rparr>) =
     [CallSourceMode ''foo.go'' [] [] [] (Inr ''package of foo.go''),
      NewGenerator,
      CallGenerate ''package of foo.go'' [] []
        (flags (defaults\<lparr>source := ''foo.go''\<rparr>)) None,
      CallOutputToDestination [] None]"
proof -
  let ?c = "defaults\<lparr>source := ''foo.go'', args := [''x'', ''stray'', ''more'']\<rparr>"
  let ?d = "defaults\<lparr>source := ''foo.go''\<rparr>"
  have h: "\<not> showVersion ?c \<and> source ?c \<noteq> []" and a: "args ?c = ''x'' # ''stray'' # [''more'']"
    by (simp_all add: defaults_def)
  have run: "main exampleEnv ?c =
     ([CallSourceMode ''foo.go'' [] [] [] (Inr ''package of foo.go''),
      NewGenerator,
      CallGenerate ''package of foo.go'' [] ''stray'' (flags ?c) None,
      CallOutputToDestination [] None], 0)"
    by (simp add: run_defs defaults_def exampleEnv_def flags_def)
  have run2: "main exampleEnv ?d =
     ([CallSourceMode ''foo.go'' [] [] [] (Inr ''package of foo.go''),
      NewGenerator,
      CallGenerate ''package of foo.go'' [] [] (flags ?d) None,
      CallOutputToDestination [] None], 0)"
    by (simp add: run_defs defaults_def exampleEnv_def flags_def)
  from source_flag_overrides_arguments [of ?c exampleEnv] a
  have "Arg ?c 1 = ''stray''" by blast
  with h run run2 show ?thesis by (simp add: trace_def)
qed

end
